theory Spec2Isabelle
  imports Main
begin

section \<open>Data model\<close>

text \<open>
  The backend keeps two tables in an external table service: \<open>users\<close> and
  \<open>documents\<close>. A table is the list of its rows. Row identifiers, user identifiers and
  timestamps are strings, as they reach the Python handlers.
\<close>

text \<open>\<^verbatim>\<open>HTTPException(status_code=..., detail=..., headers=...)\<close> raised by a route
  handler; a handler that passes no headers leaves them empty.\<close>

datatype http_exception =
  HTTPException (status_code: nat) (detail: string) (headers: "(string \<times> string) list")

text \<open>A row of the \<open>documents\<close> table (the columns of \<open>DocumentResponse\<close>).\<close>

record document_row =
  doc_id :: string
  user_id :: string
  title :: string
  doc_type :: string
  committee :: string
  country :: string
  topic :: string
  content :: "string option"
  format_status :: "string option"
  created_at :: string
  updated_at :: "string option"

text \<open>\<open>DocumentBase\<close> / \<open>DocumentCreate\<close> of \<open>schemas/document.py\<close>.\<close>

record document_create =
  dc_title :: string
  dc_type :: string
  dc_committee :: string
  dc_country :: string
  dc_topic :: string
  dc_content :: "string option"

text \<open>\<open>DocumentUpdate\<close> of \<open>schemas/document.py\<close>: every field optional, default \<open>None\<close>.\<close>

record document_update =
  du_title :: "string option"
  du_type :: "string option"
  du_committee :: "string option"
  du_country :: "string option"
  du_topic :: "string option"
  du_content :: "string option"
  du_format_status :: "string option"

text \<open>\<open>FormatCheckResponse\<close> of \<open>schemas/document.py\<close>.\<close>

record format_check_response =
  fc_document_id :: string
  fc_format_status :: string
  fc_issues :: "string list option"

text \<open>A row of the \<open>users\<close> table, as \<open>create_user\<close> writes and reads it.\<close>

record user_row =
  usr_id :: string
  usr_email :: string
  usr_username :: string
  usr_password :: string
  usr_created_at :: string

text \<open>\<open>UserCreate\<close>, \<open>UserLogin\<close> and the fields of \<open>OAuth2PasswordRequestForm\<close> the
  handlers read.\<close>

record user_create =
  uc_email :: string
  uc_username :: string
  uc_password :: string

record user_login =
  ul_email :: string
  ul_password :: string

record oauth2_form =
  form_username :: string
  form_password :: string

section \<open>The table service\<close>

text \<open>
  The handlers talk to the table service through query builders:
  \<^verbatim>\<open>table(t).select("*").eq(col, v).execute()\<close>, \<^verbatim>\<open>insert(row)\<close>,
  \<^verbatim>\<open>update(cols).eq("id", v)\<close> and \<^verbatim>\<open>delete().eq("id", v)\<close>. The service itself is not
  part of the repository; it is taken here as a plain table without access rules of its own:
  a selection keeps the rows that satisfy every \<open>eq\<close>, an update assigns the given columns
  in every selected row and answers with the rows it changed, a deletion removes the selected
  rows, an insertion appends the row and answers with it.
\<close>

definition eq_id :: "string \<Rightarrow> document_row list \<Rightarrow> document_row list" where
  "eq_id v rows = filter (\<lambda>r. doc_id r = v) rows"




definition eq_email :: "string \<Rightarrow> user_row list \<Rightarrow> user_row list" where
  "eq_email v rows = filter (\<lambda>r. usr_email r = v) rows"

text \<open>Assigning one column of a document row; a column the table does not have is ignored.\<close>

definition set_column :: "string \<times> string \<Rightarrow> document_row \<Rightarrow> document_row" where
  "set_column kv r =
     (if fst kv = ''title'' then r\<lparr>title := snd kv\<rparr>
      else if fst kv = ''type'' then r\<lparr>doc_type := snd kv\<rparr>
      else if fst kv = ''committee'' then r\<lparr>committee := snd kv\<rparr>
      else if fst kv = ''country'' then r\<lparr>country := snd kv\<rparr>
      else if fst kv = ''topic'' then r\<lparr>topic := snd kv\<rparr>
      else if fst kv = ''content'' then r\<lparr>content := Some (snd kv)\<rparr>
      else if fst kv = ''format_status'' then r\<lparr>format_status := Some (snd kv)\<rparr>
      else r)"

definition set_columns :: "(string \<times> string) list \<Rightarrow> document_row \<Rightarrow> document_row" where
  "set_columns cols r = fold set_column cols r"

text \<open>\<^verbatim>\<open>update(cols).eq("id", v).execute()\<close>: the answer and the table afterwards.\<close>

definition update_eq_id ::
  "(string \<times> string) list \<Rightarrow> string \<Rightarrow> document_row list
     \<Rightarrow> document_row list \<times> document_row list" where
  "update_eq_id cols v rows =
     (map (set_columns cols) (eq_id v rows),
      map (\<lambda>r. if doc_id r = v then set_columns cols r else r) rows)"

text \<open>\<^verbatim>\<open>delete().eq("id", v).execute()\<close>: the table afterwards.\<close>

definition delete_eq_id :: "string \<Rightarrow> document_row list \<Rightarrow> document_row list" where
  "delete_eq_id v rows = filter (\<lambda>r. doc_id r \<noteq> v) rows"

text \<open>\<^verbatim>\<open>insert(row).execute()\<close>: the answer and the table afterwards.\<close>

definition insert_row :: "'r \<Rightarrow> 'r list \<Rightarrow> 'r list \<times> 'r list" where
  "insert_row r rows = ([r], rows @ [r])"

section \<open>Document routes (\<open>api/routes/documents.py\<close>)\<close>

text \<open>
  Every handler receives the table, its request data and \<open>current_user.user_id\<close>, the
  identity that \<open>get_current_user\<close> resolved from the bearer token, and returns its result
  (an \<open>HTTPException\<close> on the left) together with the table afterwards. The identifier and
  the creation time that the service gives a new row are arguments.
\<close>


definition create_document ::
  "string \<Rightarrow> string \<Rightarrow> document_row list \<Rightarrow> document_create \<Rightarrow> string
     \<Rightarrow> (http_exception + document_row) \<times> document_row list" where
  "create_document new_id now tbl document current_user =
     (let new_document =
            \<lparr>doc_id = new_id, user_id = current_user, title = dc_title document,
             doc_type = dc_type document, committee = dc_committee document,
             country = dc_country document, topic = dc_topic document,
             content = dc_content document, format_status = Some ''not_checked'',
             created_at = now, updated_at = None\<rparr>;
          result = insert_row new_document tbl
      in case fst result of
           [] \<Rightarrow> (Inl (HTTPException 500 ''Failed to create document'' []), snd result)
         | r # _ \<Rightarrow> (Inr r, snd result))"



text \<open>\<^verbatim>\<open>document_update.dict()\<close>: the seven fields in declaration order.\<close>

definition update_dict :: "document_update \<Rightarrow> (string \<times> string option) list" where
  "update_dict u =
     [(''title'', du_title u), (''type'', du_type u), (''committee'', du_committee u),
      (''country'', du_country u), (''topic'', du_topic u), (''content'', du_content u),
      (''format_status'', du_format_status u)]"

text \<open>\<^verbatim>\<open>{k: v for k, v in d.items() if v is not None}\<close>\<close>

fun not_none_items :: "(string \<times> string option) list \<Rightarrow> (string \<times> string) list" where
  "not_none_items [] = []"
| "not_none_items ((k, None) # kvs) = not_none_items kvs"
| "not_none_items ((k, Some v) # kvs) = (k, v) # not_none_items kvs"

definition update_document ::
  "document_row list \<Rightarrow> string \<Rightarrow> document_update \<Rightarrow> string
     \<Rightarrow> (http_exception + document_row) \<times> document_row list" where
  "update_document tbl document_id document_update current_user =
     (case eq_id document_id tbl of
        [] \<Rightarrow> (Inl (HTTPException 404 ''Document not found'' []), tbl)
      | d # _ \<Rightarrow>
          if user_id d \<noteq> current_user
          then (Inl (HTTPException 403 ''Not authorized to update this document'' []), tbl)
          else
            let update_data = not_none_items (update_dict document_update);
                result = update_eq_id update_data document_id tbl
            in (case fst result of
                  [] \<Rightarrow> (Inl (HTTPException 500 ''Failed to update document'' []), snd result)
                | r # _ \<Rightarrow> (Inr r, snd result)))"

definition delete_document ::
  "document_row list \<Rightarrow> string \<Rightarrow> string
     \<Rightarrow> (http_exception + unit) \<times> document_row list" where
  "delete_document tbl document_id current_user =
     (case eq_id document_id tbl of
        [] \<Rightarrow> (Inl (HTTPException 404 ''Document not found'' []), tbl)
      | d # _ \<Rightarrow>
          if user_id d \<noteq> current_user
          then (Inl (HTTPException 403 ''Not authorized to delete this document'' []), tbl)
          else (Inr (), delete_eq_id document_id tbl))"

text \<open>
  \<open>check_document_format\<close>: the outcome of \<^verbatim>\<open>random.choice([True, False])\<close> is the
  argument \<open>is_valid\<close>.
\<close>

definition check_document_format ::
  "bool \<Rightarrow> document_row list \<Rightarrow> string \<Rightarrow> string
     \<Rightarrow> (http_exception + format_check_response) \<times> document_row list" where
  "check_document_format is_valid tbl document_id current_user =
     (case eq_id document_id tbl of
        [] \<Rightarrow> (Inl (HTTPException 404 ''Document not found'' []), tbl)
      | d # _ \<Rightarrow>
          let fmt = (if is_valid then ''valid'' else ''issues'');
              issues = (if is_valid then None
                        else Some [''Incorrect heading format'',
                                   ''Missing country flag in header'',
                                   ''Citation style inconsistent'']);
              result = update_eq_id [(''format_status'', fmt)] document_id tbl
          in (Inr \<lparr>fc_document_id = document_id, fc_format_status = fmt,
                    fc_issues = issues\<rparr>, snd result))"

section \<open>Authentication routes (\<open>api/routes/auth.py\<close>)\<close>

text \<open>
  The routes import \<open>get_password_hash\<close>, \<open>verify_password\<close>, \<open>create_access_token\<close> and
  \<open>ACCESS_TOKEN_EXPIRE_MINUTES\<close> from \<open>api/auth.py\<close>. The handlers take them as a record of
  parameters: \<open>create_access_token\<close> receives the value stored under \<open>"sub"\<close> and the
  lifetime in minutes.
\<close>

record auth_module =
  get_password_hash :: "string \<Rightarrow> string"
  verify_password :: "string \<Rightarrow> string \<Rightarrow> bool"
  create_access_token :: "string \<Rightarrow> nat \<Rightarrow> string"
  ACCESS_TOKEN_EXPIRE_MINUTES :: nat

text \<open>The \<open>Token\<close> answer of the login routes.\<close>

record token_response =
  access_token :: string
  token_type :: string

text \<open>
  \<open>create_user\<close> answers with a Python dict, kept here as the list of its items in the
  order of the dict literal. The service fills in \<open>id\<close> and \<open>created_at\<close> of the new row.
\<close>

definition create_user ::
  "auth_module \<Rightarrow> string \<Rightarrow> string \<Rightarrow> user_row list \<Rightarrow> user_create
     \<Rightarrow> (http_exception + (string \<times> string) list) \<times> user_row list" where
  "create_user auth new_id now users user =
     (case eq_email (uc_email user) users of
        _ # _ \<Rightarrow> (Inl (HTTPException 400 ''Email already registered'' []), users)
      | [] \<Rightarrow>
          let hashed_password = get_password_hash auth (uc_password user);
              new_user = \<lparr>usr_id = new_id, usr_email = uc_email user,
                          usr_username = uc_username user, usr_password = hashed_password,
                          usr_created_at = now\<rparr>;
              result = insert_row new_user users
          in (case fst result of
                [] \<Rightarrow> (Inl (HTTPException 500 ''Failed to create user'' []), snd result)
              | created_user # _ \<Rightarrow>
                  (Inr [(''id'', usr_id created_user),
                        (''email'', usr_email created_user),
                        (''username'', usr_username created_user),
                        (''created_at'', usr_created_at created_user)],
                   snd result)))"

definition login_for_access_token ::
  "auth_module \<Rightarrow> user_row list \<Rightarrow> oauth2_form \<Rightarrow> http_exception + token_response" where
  "login_for_access_token auth users form_data =
     (case eq_email (form_username form_data) users of
        [] \<Rightarrow> Inl (HTTPException 401 ''Incorrect email or password''
                     [(''WWW-Authenticate'', ''Bearer'')])
      | user # _ \<Rightarrow>
          if \<not> verify_password auth (form_password form_data) (usr_password user)
          then Inl (HTTPException 401 ''Incorrect email or password''
                      [(''WWW-Authenticate'', ''Bearer'')])
          else
            let access_token_expires = ACCESS_TOKEN_EXPIRE_MINUTES auth;
                token = create_access_token auth (usr_id user) access_token_expires
            in Inr \<lparr>access_token = token, token_type = ''bearer''\<rparr>)"

definition login ::
  "auth_module \<Rightarrow> user_row list \<Rightarrow> user_login \<Rightarrow> http_exception + token_response" where
  "login auth users user_data =
     (let form_data = \<lparr>form_username = ul_email user_data,
                        form_password = ul_password user_data\<rparr>
      in login_for_access_token auth users form_data)"

section \<open>Credential Manager and Token Authority\<close>

text \<open>
  Modelled from the spec: \<open>get_password_hash\<close> and \<open>verify_password\<close> of \<open>api/auth.py\<close>,
  which is not among the sources. The spec's \<open>hash\<close> incorporates a per-call random salt,
  which is an argument here, and fails only on empty or oversized input; the digest embeds
  the salt. The one-way transform and the size limit are parameters.
\<close>

datatype credential_error = EmptyInput | OversizedInput

record digest =
  dg_salt :: string
  dg_body :: string

definition hash_password ::
  "(string \<Rightarrow> string \<Rightarrow> string) \<Rightarrow> nat \<Rightarrow> string \<Rightarrow> string \<Rightarrow> credential_error + digest" where
  "hash_password transform max_len salt plaintext =
     (if plaintext = [] then Inl EmptyInput
      else if max_len < length plaintext then Inl OversizedInput
      else Inr \<lparr>dg_salt = salt, dg_body = transform salt plaintext\<rparr>)"

text \<open>
  Modelled from the spec: \<open>verify\<close> recomputes the transform using the salt embedded in
  the digest and compares.
\<close>

definition verify_digest ::
  "(string \<Rightarrow> string \<Rightarrow> string) \<Rightarrow> string \<Rightarrow> digest \<Rightarrow> bool" where
  "verify_digest transform plaintext d = (transform (dg_salt d) plaintext = dg_body d)"

text \<open>
  Modelled from the spec: \<open>create_access_token\<close> and \<open>get_current_user\<close> of
  \<open>api/auth.py\<close>, which is not among the sources. A token carries the subject id, the
  issuance time, the expiry time and a signature. The signature is symbolic: it records the
  secret that produced it and the claims it covers, so two signatures are equal only when
  secret and claims are. Times are counted in whole time units.
\<close>

datatype signature = Sign string "string \<times> nat \<times> nat"

record access_token_claims =
  tk_sub :: string
  tk_iat :: nat
  tk_exp :: nat
  tk_sig :: signature

datatype auth_outcome = Unauthenticated | Authenticated string

text \<open>\<open>issue(subjectId, ttl)\<close>: issued-at is now, expires-at is now plus the lifetime.\<close>

definition issue :: "string \<Rightarrow> nat \<Rightarrow> string \<Rightarrow> nat \<Rightarrow> access_token_claims" where
  "issue secret now subject_id ttl =
     \<lparr>tk_sub = subject_id, tk_iat = now, tk_exp = now + ttl,
      tk_sig = Sign secret (subject_id, now, now + ttl)\<rparr>"

text \<open>
  \<open>verify(token)\<close>: a function of the token, the current time and the server secret. A
  signature mismatch and an elapsed expiry fail alike.
\<close>

definition verify :: "string \<Rightarrow> nat \<Rightarrow> access_token_claims \<Rightarrow> auth_outcome" where
  "verify secret now t =
     (if tk_sig t \<noteq> Sign secret (tk_sub t, tk_iat t, tk_exp t) then Unauthenticated
      else if tk_exp t \<le> now then Unauthenticated
      else Authenticated (tk_sub t))"

section \<open>Sample data\<close>

text \<open>Concrete rows and requests on which the handlers are evaluated below.\<close>

definition alice_paper :: document_row where
  "alice_paper =
     \<lparr>doc_id = ''d1'', user_id = ''alice'', title = ''Water'', doc_type = ''speech'',
      committee = ''UNEP'', country = ''Chile'', topic = ''Rivers'', content = Some ''Draft'',
      format_status = Some ''not_checked'', created_at = ''2025-01-01'', updated_at = None\<rparr>"

definition retitle :: document_update where
  "retitle = \<lparr>du_title = Some ''Oceans'', du_type = None, du_committee = None,
               du_country = None, du_topic = None, du_content = None,
               du_format_status = None\<rparr>"

definition mark_issues :: document_update where
  "mark_issues = \<lparr>du_title = None, du_type = None, du_committee = None,
                   du_country = None, du_topic = None, du_content = None,
                   du_format_status = Some ''issues''\<rparr>"

definition alice_row :: user_row where
  "alice_row = \<lparr>usr_id = ''u1'', usr_email = ''a@x.com'', usr_username = ''alice'',
                 usr_password = ''h:pw'', usr_created_at = ''2025-01-01''\<rparr>"

definition alice_signup :: user_create where
  "alice_signup = \<lparr>uc_email = ''a@x.com'', uc_username = ''alice'', uc_password = ''pw''\<rparr>"

definition plain_auth :: auth_module where
  "plain_auth = \<lparr>get_password_hash = (\<lambda>p. ''h:'' @ p),
                  verify_password = (\<lambda>p h. h = ''h:'' @ p),
                  create_access_token = (\<lambda>s m. ''tok:'' @ s),
                  ACCESS_TOKEN_EXPIRE_MINUTES = 30\<rparr>"

section \<open>Facts about the table service\<close>

lemma eq_id_Nil_iff: "eq_id i tbl = [] \<longleftrightarrow> i \<notin> doc_id ` set tbl"
  by (auto simp: eq_id_def filter_empty_conv)

lemma eq_id_hd_in_set: "eq_id i tbl = d # ds \<Longrightarrow> d \<in> set tbl \<and> doc_id d = i"
proof -
  assume "eq_id i tbl = d # ds"
  then have "d \<in> set (filter (\<lambda>r. doc_id r = i) tbl)"
    by (simp add: eq_id_def)
  then show ?thesis by simp
qed

lemma eq_id_alice_paper: "eq_id ''d1'' [alice_paper] = [alice_paper]"
  by (simp add: eq_id_def alice_paper_def)

text \<open>The columns that \<open>update_document\<close> sends, applied to one row.\<close>

lemma set_columns_items:
  "set_columns (not_none_items (update_dict u)) r =
     r\<lparr>title := (case du_title u of None \<Rightarrow> title r | Some v \<Rightarrow> v),
       doc_type := (case du_type u of None \<Rightarrow> doc_type r | Some v \<Rightarrow> v),
       committee := (case du_committee u of None \<Rightarrow> committee r | Some v \<Rightarrow> v),
       country := (case du_country u of None \<Rightarrow> country r | Some v \<Rightarrow> v),
       topic := (case du_topic u of None \<Rightarrow> topic r | Some v \<Rightarrow> v),
       content := (case du_content u of None \<Rightarrow> content r | Some v \<Rightarrow> Some v),
       format_status :=
         (case du_format_status u of None \<Rightarrow> format_status r | Some v \<Rightarrow> Some v)\<rparr>"
  by (simp add: update_dict_def set_columns_def set_column_def split: option.splits)

section \<open>The ownership gate\<close>

text \<open>
  Of the handlers that write to a stored document, \<open>update_document\<close> and
  \<open>delete_document\<close> compare \<open>current_user.user_id\<close> with the \<open>user_id\<close> of the stored
  document: for a document that exists, the request is rejected with 403 exactly when the
  two differ, and a rejected request leaves the table as it was.
\<close>

lemma update_delete_compare_owner:
  "eq_id i tbl = d # ds \<Longrightarrow>
     ((fst (update_document tbl i u cu) =
         Inl (HTTPException 403 ''Not authorized to update this document'' []))
        = (user_id d \<noteq> cu)) \<and>
     ((fst (delete_document tbl i cu) =
         Inl (HTTPException 403 ''Not authorized to delete this document'' []))
        = (user_id d \<noteq> cu)) \<and>
     (user_id d \<noteq> cu \<longrightarrow>
        snd (update_document tbl i u cu) = tbl \<and> snd (delete_document tbl i cu) = tbl)"
  by (simp add: update_document_def delete_document_def update_eq_id_def Let_def
      split: list.splits)

text \<open>
  C1. Every operation that writes to a stored document should compare the authenticated
  identity with the document's owner and reject on mismatch, leaving the document
  unchanged. \<open>check_document_format\<close> does not: for bob, who does not own alice's
  document, it succeeds and overwrites the document's \<open>format_status\<close>, although the same
  write to the same column through \<open>update_document\<close> is refused to bob with 403 and
  leaves the table as it was.
\<close>

theorem format_check_skips_ownership_gate:
  "user_id alice_paper \<noteq> ''bob'' \<and>
   check_document_format False [alice_paper] ''d1'' ''bob'' =
     (Inr \<lparr>fc_document_id = ''d1'', fc_format_status = ''issues'',
            fc_issues = Some [''Incorrect heading format'',
                              ''Missing country flag in header'',
                              ''Citation style inconsistent'']\<rparr>,
      [alice_paper\<lparr>format_status := Some ''issues''\<rparr>]) \<and>
   [alice_paper\<lparr>format_status := Some ''issues''\<rparr>] \<noteq> [alice_paper] \<and>
   update_document [alice_paper] ''d1'' mark_issues ''bob'' =
     (Inl (HTTPException 403 ''Not authorized to update this document'' []), [alice_paper])"
  by (simp add: check_document_format_def update_document_def update_eq_id_def eq_id_def
      set_columns_def set_column_def alice_paper_def Let_def)

section \<open>Reading documents\<close>



section \<open>Updating and deleting documents\<close>

text \<open>
  C3. For \<open>update_document\<close> and \<open>delete_document\<close>: when no stored document has the
  requested id the result is 404; when the document that the lookup returns belongs to
  another user the result is 403, a different status, and the table is left as it was, so the
  document is neither modified nor deleted.
\<close>

theorem update_delete_not_found_forbidden:
  "(i \<notin> doc_id ` set tbl \<longrightarrow>
      update_document tbl i u cu = (Inl (HTTPException 404 ''Document not found'' []), tbl) \<and>
      delete_document tbl i cu = (Inl (HTTPException 404 ''Document not found'' []), tbl)) \<and>
   (eq_id i tbl = d # ds \<and> user_id d \<noteq> cu \<longrightarrow>
      update_document tbl i u cu =
        (Inl (HTTPException 403 ''Not authorized to update this document'' []), tbl) \<and>
      delete_document tbl i cu =
        (Inl (HTTPException 403 ''Not authorized to delete this document'' []), tbl))"
  by (simp add: update_document_def delete_document_def eq_id_Nil_iff [symmetric])

theorem update_delete_not_found_forbidden_witness:
  "update_document [alice_paper] ''d9'' retitle ''bob'' =
     (Inl (HTTPException 404 ''Document not found'' []), [alice_paper]) \<and>
   delete_document [alice_paper] ''d9'' ''bob'' =
     (Inl (HTTPException 404 ''Document not found'' []), [alice_paper]) \<and>
   update_document [alice_paper] ''d1'' retitle ''bob'' =
     (Inl (HTTPException 403 ''Not authorized to update this document'' []), [alice_paper]) \<and>
   delete_document [alice_paper] ''d1'' ''bob'' =
     (Inl (HTTPException 403 ''Not authorized to delete this document'' []), [alice_paper])"
proof -
  have absent: "''d9'' \<notin> doc_id ` set [alice_paper]"
    by (simp add: alice_paper_def)
  have owner: "user_id alice_paper \<noteq> ''bob''"
    by (simp add: alice_paper_def)
  from update_delete_not_found_forbidden
         [of "''d9''" "[alice_paper]" retitle "''bob''" alice_paper "[]"]
       update_delete_not_found_forbidden
         [of "''d1''" "[alice_paper]" retitle "''bob''" alice_paper "[]"]
       absent owner eq_id_alice_paper
  show ?thesis by simp
qed

text \<open>
  C10. When the owner updates a document, each field of the stored document takes the
  value of the request where the request gives one and keeps its stored value where the
  request gives \<open>None\<close>; the identifier, the owner and the timestamps stay. A field that
  held a value holds one afterwards. The updated document is the one stored, and the
  documents of other ids are untouched.
\<close>

theorem update_applies_only_given_fields:
  "eq_id i tbl = d # ds \<Longrightarrow> user_id d = cu \<Longrightarrow>
   \<exists>d' tbl'. update_document tbl i u cu = (Inr d', tbl') \<and>
        d' \<in> set tbl' \<and> length tbl' = length tbl \<and>
        filter (\<lambda>r. doc_id r \<noteq> i) tbl' = filter (\<lambda>r. doc_id r \<noteq> i) tbl \<and>
        title d' = (case du_title u of None \<Rightarrow> title d | Some v \<Rightarrow> v) \<and>
        doc_type d' = (case du_type u of None \<Rightarrow> doc_type d | Some v \<Rightarrow> v) \<and>
        committee d' = (case du_committee u of None \<Rightarrow> committee d | Some v \<Rightarrow> v) \<and>
        country d' = (case du_country u of None \<Rightarrow> country d | Some v \<Rightarrow> v) \<and>
        topic d' = (case du_topic u of None \<Rightarrow> topic d | Some v \<Rightarrow> v) \<and>
        content d' = (case du_content u of None \<Rightarrow> content d | Some v \<Rightarrow> Some v) \<and>
        format_status d' =
          (case du_format_status u of None \<Rightarrow> format_status d | Some v \<Rightarrow> Some v) \<and>
        doc_id d' = doc_id d \<and> user_id d' = user_id d \<and>
        created_at d' = created_at d \<and> updated_at d' = updated_at d \<and>
        (content d \<noteq> None \<longrightarrow> content d' \<noteq> None) \<and>
        (format_status d \<noteq> None \<longrightarrow> format_status d' \<noteq> None)"
proof -
  assume sel: "eq_id i tbl = d # ds" and own: "user_id d = cu"
  let ?f = "set_columns (not_none_items (update_dict u))"
  from sel have mem: "d \<in> set tbl" and idd: "doc_id d = i"
    using eq_id_hd_in_set by blast+
  have res: "update_document tbl i u cu =
               (Inr (?f d), map (\<lambda>r. if doc_id r = i then ?f r else r) tbl)"
    using sel own by (simp add: update_document_def update_eq_id_def Let_def)
  have stored: "?f d \<in> set (map (\<lambda>r. if doc_id r = i then ?f r else r) tbl)"
    using mem idd by (auto simp: image_iff intro!: bexI [of _ d])
  have others: "filter (\<lambda>r. doc_id r \<noteq> i) (map (\<lambda>r. if doc_id r = i then ?f r else r) tbl)
                  = filter (\<lambda>r. doc_id r \<noteq> i) tbl"
    by (induction tbl) (simp_all add: set_columns_items)
  have fields:
    "title (?f d) = (case du_title u of None \<Rightarrow> title d | Some v \<Rightarrow> v)"
    "doc_type (?f d) = (case du_type u of None \<Rightarrow> doc_type d | Some v \<Rightarrow> v)"
    "committee (?f d) = (case du_committee u of None \<Rightarrow> committee d | Some v \<Rightarrow> v)"
    "country (?f d) = (case du_country u of None \<Rightarrow> country d | Some v \<Rightarrow> v)"
    "topic (?f d) = (case du_topic u of None \<Rightarrow> topic d | Some v \<Rightarrow> v)"
    "content (?f d) = (case du_content u of None \<Rightarrow> content d | Some v \<Rightarrow> Some v)"
    "format_status (?f d) =
       (case du_format_status u of None \<Rightarrow> format_status d | Some v \<Rightarrow> Some v)"
    "doc_id (?f d) = doc_id d" "user_id (?f d) = user_id d"
    "created_at (?f d) = created_at d" "updated_at (?f d) = updated_at d"
    by (simp_all add: set_columns_items)
  have kept:
    "content d \<noteq> None \<longrightarrow> content (?f d) \<noteq> None"
    "format_status d \<noteq> None \<longrightarrow> format_status (?f d) \<noteq> None"
    by (simp_all add: set_columns_items split: option.splits)
  from res stored others fields kept show ?thesis
    by (intro exI [of _ "?f d"] exI [of _ "map (\<lambda>r. if doc_id r = i then ?f r else r) tbl"])
      simp
qed

theorem update_applies_only_given_fields_witness:
  "\<exists>d'. fst (update_document [alice_paper] ''d1'' retitle ''alice'') = Inr d' \<and>
        title d' = ''Oceans'' \<and> doc_type d' = ''speech'' \<and> committee d' = ''UNEP'' \<and>
        country d' = ''Chile'' \<and> topic d' = ''Rivers'' \<and> content d' = Some ''Draft'' \<and>
        format_status d' = Some ''not_checked''"
proof -
  have owner: "user_id alice_paper = ''alice''"
    by (simp add: alice_paper_def)
  from update_applies_only_given_fields [OF eq_id_alice_paper owner, of retitle]
  obtain d' tbl' where
    "update_document [alice_paper] ''d1'' retitle ''alice'' = (Inr d', tbl')"
    "title d' = (case du_title retitle of None \<Rightarrow> title alice_paper | Some v \<Rightarrow> v)"
    "doc_type d' = (case du_type retitle of None \<Rightarrow> doc_type alice_paper | Some v \<Rightarrow> v)"
    "committee d' =
       (case du_committee retitle of None \<Rightarrow> committee alice_paper | Some v \<Rightarrow> v)"
    "country d' = (case du_country retitle of None \<Rightarrow> country alice_paper | Some v \<Rightarrow> v)"
    "topic d' = (case du_topic retitle of None \<Rightarrow> topic alice_paper | Some v \<Rightarrow> v)"
    "content d' =
       (case du_content retitle of None \<Rightarrow> content alice_paper | Some v \<Rightarrow> Some v)"
    "format_status d' =
       (case du_format_status retitle of None \<Rightarrow> format_status alice_paper
                                        | Some v \<Rightarrow> Some v)"
    by blast
  then show ?thesis
    by (simp add: retitle_def alice_paper_def)
qed

section \<open>The format check\<close>

text \<open>
  C8. A format check of an id that some stored document has answers with that id, with
  format status \<open>valid\<close> or \<open>issues\<close>, and with a list of issues exactly when the status is
  \<open>issues\<close>; afterwards every stored document of that id carries the returned status and
  nothing else in the table has changed.
\<close>

theorem format_check_response_and_store:
  "i \<in> doc_id ` set tbl \<Longrightarrow>
   \<exists>resp. check_document_format is_valid tbl i cu =
            (Inr resp,
             map (\<lambda>r. if doc_id r = i then r\<lparr>format_status := Some (fc_format_status resp)\<rparr>
                       else r) tbl) \<and>
          fc_document_id resp = i \<and>
          (fc_format_status resp = ''valid'' \<or> fc_format_status resp = ''issues'') \<and>
          (fc_issues resp \<noteq> None) = (fc_format_status resp = ''issues'')"
proof -
  assume "i \<in> doc_id ` set tbl"
  then have "eq_id i tbl \<noteq> []"
    by (simp add: eq_id_Nil_iff)
  then obtain d ds where "eq_id i tbl = d # ds"
    by (cases "eq_id i tbl") auto
  then show ?thesis
    by (cases is_valid)
      (simp_all add: check_document_format_def update_eq_id_def set_columns_def
        set_column_def Let_def)
qed

theorem format_check_response_and_store_witness:
  "''d1'' \<in> doc_id ` set [alice_paper] \<and>
   (\<exists>resp. check_document_format True [alice_paper] ''d1'' ''alice'' =
            (Inr resp, [alice_paper\<lparr>format_status := Some (fc_format_status resp)\<rparr>]) \<and>
          fc_document_id resp = ''d1'' \<and>
          (fc_format_status resp = ''valid'' \<or> fc_format_status resp = ''issues'') \<and>
          (fc_issues resp \<noteq> None) = (fc_format_status resp = ''issues''))"
proof -
  have present: "''d1'' \<in> doc_id ` set [alice_paper]"
    by (simp add: alice_paper_def)
  have idd: "doc_id alice_paper = ''d1''"
    by (simp add: alice_paper_def)
  from format_check_response_and_store [OF present, of True "''alice''"] present idd
  show ?thesis by simp
qed

section \<open>Signing up and logging in\<close>

text \<open>
  C5. A signup whose email some stored user already has fails with status 400 and
  detail \<open>Email already registered\<close>, and the table of users afterwards is the table
  before: no row is inserted.
\<close>

theorem signup_existing_email_rejected:
  "\<exists>u \<in> set users. usr_email u = uc_email user \<Longrightarrow>
     create_user auth new_id now users user =
       (Inl (HTTPException 400 ''Email already registered'' []), users)"
proof -
  assume "\<exists>u \<in> set users. usr_email u = uc_email user"
  then have "eq_email (uc_email user) users \<noteq> []"
    by (auto simp: eq_email_def filter_empty_conv)
  then show ?thesis
    by (simp add: create_user_def split: list.splits)
qed

theorem signup_existing_email_rejected_witness:
  "(\<exists>u \<in> set [alice_row]. usr_email u = uc_email alice_signup) \<and>
   create_user plain_auth ''u2'' ''2025-02-02'' [alice_row] alice_signup =
     (Inl (HTTPException 400 ''Email already registered'' []), [alice_row])"
proof -
  have taken: "\<exists>u \<in> set [alice_row]. usr_email u = uc_email alice_signup"
    by (simp add: alice_row_def alice_signup_def)
  from signup_existing_email_rejected [OF taken, of plain_auth "''u2''" "''2025-02-02''"] taken
  show ?thesis by simp
qed

text \<open>
  C9. The answer of a successful signup has exactly the items \<open>id\<close>, \<open>email\<close>,
  \<open>username\<close> and \<open>created_at\<close>, taken from the created row; there is no \<open>password\<close> item,
  and neither the request's password nor its hash enters the answer.
\<close>

theorem signup_response_fields:
  "create_user auth new_id now users user = (Inr resp, users') \<Longrightarrow>
     resp = [(''id'', new_id), (''email'', uc_email user),
             (''username'', uc_username user), (''created_at'', now)] \<and>
     map fst resp = [''id'', ''email'', ''username'', ''created_at''] \<and>
     ''password'' \<notin> fst ` set resp"
  by (auto simp: create_user_def insert_row_def split: list.splits)

theorem signup_response_fields_witness:
  "create_user plain_auth ''u1'' ''2025-01-01'' [] alice_signup =
     (Inr [(''id'', ''u1''), (''email'', ''a@x.com''), (''username'', ''alice''),
           (''created_at'', ''2025-01-01'')], [alice_row]) \<and>
   map fst [(''id'', ''u1''), (''email'', ''a@x.com''), (''username'', ''alice''),
            (''created_at'', ''2025-01-01'')] = [''id'', ''email'', ''username'', ''created_at'']"
proof -
  have run: "create_user plain_auth ''u1'' ''2025-01-01'' [] alice_signup =
     (Inr [(''id'', ''u1''), (''email'', ''a@x.com''), (''username'', ''alice''),
           (''created_at'', ''2025-01-01'')], [alice_row])"
    by (simp add: create_user_def eq_email_def insert_row_def plain_auth_def alice_signup_def
        alice_row_def)
  from signup_response_fields [OF run] run show ?thesis by simp
qed

text \<open>
  C6. For every email and password, \<open>login\<close> gives the outcome that
  \<open>login_for_access_token\<close> gives for the form with that email as \<open>username\<close> and the same
  password.
\<close>

theorem login_same_as_token_route:
  "login auth users \<lparr>ul_email = e, ul_password = p\<rparr> =
   login_for_access_token auth users \<lparr>form_username = e, form_password = p\<rparr>"
  by (simp add: login_def)

section \<open>Credentials and tokens\<close>

text \<open>
  C7. Whenever hashing a plaintext succeeds, verifying that plaintext against the
  digest it produced succeeds, whatever the salt.
\<close>

theorem verify_accepts_hashed_password:
  "hash_password transform max_len salt p = Inr d \<Longrightarrow> verify_digest transform p d"
  by (auto simp: hash_password_def verify_digest_def split: if_splits)

theorem verify_accepts_hashed_password_witness:
  "hash_password (\<lambda>s p. rev p @ s) 72 ''na'' ''pw'' =
     Inr \<lparr>dg_salt = ''na'', dg_body = ''wpna''\<rparr> \<and>
   verify_digest (\<lambda>s p. rev p @ s) ''pw'' \<lparr>dg_salt = ''na'', dg_body = ''wpna''\<rparr>"
proof -
  have run: "hash_password (\<lambda>s p. rev p @ s) 72 ''na'' ''pw'' =
               Inr \<lparr>dg_salt = ''na'', dg_body = ''wpna''\<rparr>"
    by (simp add: hash_password_def)
  from verify_accepts_hashed_password [OF run] run show ?thesis by simp
qed

text \<open>
  C4. A token issued for any subject with a positive lifetime under one secret is
  refused, at any time, by a verification under a different secret.
\<close>

theorem token_of_other_secret_rejected:
  "k1 \<noteq> k2 \<Longrightarrow> 0 < ttl \<Longrightarrow> verify k2 t (issue k1 now s ttl) = Unauthenticated"
  by (simp add: verify_def issue_def)

theorem token_of_other_secret_rejected_witness:
  "''old'' \<noteq> ''new'' \<and> (0::nat) < 30 \<and>
   verify ''new'' 5 (issue ''old'' 0 ''u1'' 30) = Unauthenticated"
proof -
  have k: "''old'' \<noteq> ''new''" by simp
  have t: "(0::nat) < 30" by simp
  from token_of_other_secret_rejected [OF k t, of 5 0 "''u1''"] k t
  show ?thesis by simp
qed

end
